theory Spec2Isabelle
  imports Main
begin

section \<open>JavaScript values\<close>

text \<open>
  Every value the client handles comes out of \<^verbatim>\<open>JSON.parse\<close> or out of the code itself, so a
  value is \<^verbatim>\<open>undefined\<close>, \<^verbatim>\<open>null\<close>, a boolean, a number, a string, an array or a plain
  object whose prototype is \<^verbatim>\<open>Object.prototype\<close>. A number is held as the text that JavaScript
  prints for it, which determines it up to the sign of zero: \<^verbatim>\<open>0\<close>, \<^verbatim>\<open>12\<close>, \<^verbatim>\<open>-3.5\<close>, \<^verbatim>\<open>1e+21\<close>,
  \<^verbatim>\<open>Infinity\<close> (what \<^verbatim>\<open>JSON.parse\<close> makes of \<^verbatim>\<open>1e400\<close>), \<^verbatim>\<open>NaN\<close>. An object is the list of its
  own properties in the order in which JavaScript enumerates them; its keys are distinct, and
  none of its values is callable.
\<close>

datatype jsval =
    JUndefined
  | JNull
  | JBool bool
  | JNum string
  | JStr string
  | JArr "jsval list"
  | JObj "(string \<times> jsval) list"

text \<open>
  What the code throws: an \<^verbatim>\<open>Error\<close> with its message, or a \<^verbatim>\<open>TypeError\<close> of the language or
  of \<^verbatim>\<open>fetch\<close>, whose message is the engine's.
\<close>

datatype js_error = Error string | TypeError

text \<open>\<^verbatim>\<open>Boolean(v)\<close>, the test behind \<^verbatim>\<open>!v\<close>, \<^verbatim>\<open>v ? a : b\<close>, \<^verbatim>\<open>v && w\<close> and \<^verbatim>\<open>v || w\<close>.\<close>

fun truthy :: "jsval \<Rightarrow> bool" where
  "truthy JUndefined = False"
| "truthy JNull = False"
| "truthy (JBool b) = b"
| "truthy (JNum n) = (n \<noteq> ''0'' \<and> n \<noteq> ''NaN'')"
| "truthy (JStr s) = (s \<noteq> [])"
| "truthy (JArr xs) = True"
| "truthy (JObj kvs) = True"

text \<open>The values that \<^verbatim>\<open>??\<close> and \<^verbatim>\<open>?.\<close> skip.\<close>

fun nullish :: "jsval \<Rightarrow> bool" where
  "nullish JUndefined = True"
| "nullish JNull = True"
| "nullish v = False"

text \<open>\<^verbatim>\<open>a ?? b\<close>\<close>

definition coalesce :: "jsval \<Rightarrow> jsval \<Rightarrow> jsval" where
  "coalesce a b = (if nullish a then b else a)"

text \<open>
  \<^verbatim>\<open>v?.name\<close> for the data fields the client reads (\<^verbatim>\<open>questions\<close>, \<^verbatim>\<open>id\<close>, \<^verbatim>\<open>token\<close>,
  \<^verbatim>\<open>message\<close>, ...): an own property of a plain object, \<^verbatim>\<open>undefined\<close> on everything else.
  None of these names is inherited from a prototype, and an array or a string made by
  \<^verbatim>\<open>JSON.parse\<close> has no named property but \<^verbatim>\<open>length\<close>, which \<open>length_of\<close> reads.
\<close>

fun prop_of :: "jsval \<Rightarrow> string \<Rightarrow> jsval" where
  "prop_of (JObj kvs) name = (case map_of kvs name of Some v \<Rightarrow> v | None \<Rightarrow> JUndefined)"
| "prop_of v name = JUndefined"

text \<open>\<^verbatim>\<open>Array.isArray(v)\<close>\<close>

fun isArray :: "jsval \<Rightarrow> bool" where
  "isArray (JArr xs) = True"
| "isArray v = False"

text \<open>The elements of an array (used only under \<open>isArray\<close>).\<close>

fun elements :: "jsval \<Rightarrow> jsval list" where
  "elements (JArr xs) = xs"
| "elements v = []"

text \<open>\<^verbatim>\<open>typeof v === 'object'\<close>: objects, arrays and, as the language has it, \<^verbatim>\<open>null\<close>.\<close>

fun typeof_object :: "jsval \<Rightarrow> bool" where
  "typeof_object JNull = True"
| "typeof_object (JArr xs) = True"
| "typeof_object (JObj kvs) = True"
| "typeof_object v = False"

text \<open>
  Decimal digits of a natural number, as JavaScript prints an array index, an array length or
  an HTTP status.
\<close>

definition digit :: "nat \<Rightarrow> char" where
  "digit d = ''0123456789'' ! d"

fun dec_nat :: "nat \<Rightarrow> string" where
  "dec_nat n = (if n < 10 then [digit n] else dec_nat (n div 10) @ [digit (n mod 10)])"

declare dec_nat.simps [simp del]

text \<open>\<^verbatim>\<open>xs.join(',')\<close> on strings.\<close>

fun join_comma :: "string list \<Rightarrow> string" where
  "join_comma [] = []"
| "join_comma [s] = s"
| "join_comma (s # t # ss) = s @ CHR '','' # join_comma (t # ss)"

text \<open>
  \<^verbatim>\<open>String(v)\<close>, the conversion of a template literal \<^verbatim>\<open>`${v}`\<close>, of a computed property key
  and of \<^verbatim>\<open>new Error(v)\<close>; \<open>None\<close> when it throws a \<^verbatim>\<open>TypeError\<close>. A plain object is converted
  by its \<^verbatim>\<open>toString\<close>: the inherited one prints \<^verbatim>\<open>[object Object]\<close>, an own property of that
  name hides it and, not being callable, leaves only \<^verbatim>\<open>valueOf\<close>, which gives no primitive, so
  the conversion throws. An array joins the strings of its elements with commas, \<^verbatim>\<open>null\<close> and
  \<^verbatim>\<open>undefined\<close> elements as the empty string, and throws when an element does.
\<close>

fun to_string :: "jsval \<Rightarrow> string option" where
  "to_string JUndefined = Some ''undefined''"
| "to_string JNull = Some ''null''"
| "to_string (JBool b) = Some (if b then ''true'' else ''false'')"
| "to_string (JNum n) = Some n"
| "to_string (JStr s) = Some s"
| "to_string (JArr xs) =
     map_option join_comma (those (map (\<lambda>x. if nullish x then Some [] else to_string x) xs))"
| "to_string (JObj kvs) =
     (if ''toString'' \<in> set (map fst kvs) then None else Some ''[object Object]'')"

text \<open>
  \<^verbatim>\<open>Object.values(v)\<close> for a value that is neither \<^verbatim>\<open>null\<close> nor \<^verbatim>\<open>undefined\<close>: the own
  property values of an object, the elements of an array, the one-character strings of a string,
  nothing for a number or a boolean.
\<close>

fun object_values :: "jsval \<Rightarrow> jsval list" where
  "object_values (JObj kvs) = map snd kvs"
| "object_values (JArr xs) = xs"
| "object_values (JStr s) = map (\<lambda>c. JStr [c]) s"
| "object_values v = []"

text \<open>
  Defining an own property, as an object literal \<^verbatim>\<open>{...o, [k]: v}\<close> or \<^verbatim>\<open>{...o, k: v}\<close> does:
  an existing key keeps its place and takes the new value, a new key goes last.
\<close>

fun define_property :: "string \<Rightarrow> 'v \<Rightarrow> (string \<times> 'v) list \<Rightarrow> (string \<times> 'v) list" where
  "define_property k v [] = [(k, v)]"
| "define_property k v ((k', v') # kvs) =
     (if k' = k then (k, v) # kvs else (k', v') # define_property k v kvs)"

section \<open>Quiz page: normalisation and question ids\<close>

text \<open>\<^verbatim>\<open>normalizeQuestions\<close> (QuizPage.jsx, lines 10-24).\<close>

definition normalizeQuestions :: "jsval \<Rightarrow> jsval list" where
  "normalizeQuestions payload =
     (if \<not> truthy payload then []
      else if isArray (prop_of payload ''questions'') then elements (prop_of payload ''questions'')
      else if isArray payload then elements payload
      else [])"

text \<open>
  \<^verbatim>\<open>getQuestionId\<close> (QuizPage.jsx, lines 26-29); \<open>None\<close> when the template literal of line 28
  throws.
\<close>

definition getQuestionId :: "jsval \<Rightarrow> nat \<Rightarrow> jsval option" where
  "getQuestionId question fallbackIndex =
     (if truthy (prop_of question ''question_number'')
      then map_option (\<lambda>number. JStr (''question-'' @ number))
             (to_string (prop_of question ''question_number''))
      else Some (coalesce (prop_of question ''id'')
             (coalesce (prop_of question ''questionId'') (JStr (''q-'' @ dec_nat fallbackIndex)))))"

section \<open>Dashboard page: lesson normalisation\<close>

text \<open>\<^verbatim>\<open>normalizeLessons\<close> (DashboardPage, lines 294-316).\<close>

definition normalizeLessons :: "jsval \<Rightarrow> jsval list" where
  "normalizeLessons lessonPlan =
     (if \<not> truthy lessonPlan then []
      else if isArray lessonPlan then elements lessonPlan
      else if isArray (prop_of lessonPlan ''lessons'') then elements (prop_of lessonPlan ''lessons'')
      else if truthy (prop_of lessonPlan ''plan'') \<and> isArray (prop_of lessonPlan ''plan'')
        then elements (prop_of lessonPlan ''plan'')
      else if truthy (prop_of lessonPlan ''sections'') \<and> isArray (prop_of lessonPlan ''sections'')
        then elements (prop_of lessonPlan ''sections'')
      else filter typeof_object (object_values lessonPlan))"

section \<open>Quiz page: the session controller\<close>

text \<open>
  An awaited API call either resolves with the parsed body or throws: \<open>Inl e\<close> is the error
  \<open>e\<close> thrown, by the request or, before it, by the call that builds the request.
\<close>

type_synonym 'a outcome = "js_error + 'a"

text \<open>
  \<^verbatim>\<open>acc[k] = v\<close> with a primitive \<open>v\<close> on a plain object. The key \<^verbatim>\<open>__proto__\<close>, unless it is an
  own property already, names the accessor inherited from \<^verbatim>\<open>Object.prototype\<close>, and its setter
  ignores a value that is neither an object nor \<^verbatim>\<open>null\<close>: that assignment adds no property.
  Every other key is defined as an own property.
\<close>

definition assign_primitive :: "string \<Rightarrow> 'v \<Rightarrow> (string \<times> 'v) list \<Rightarrow> (string \<times> 'v) list" where
  "assign_primitive k v obj =
     (if k = ''__proto__'' \<and> k \<notin> set (map fst obj) then obj else define_property k v obj)"

text \<open>\<^verbatim>\<open>v?.length\<close>\<close>

fun length_of :: "jsval \<Rightarrow> jsval" where
  "length_of (JArr xs) = JNum (dec_nat (length xs))"
| "length_of (JStr s) = JNum (dec_nat (length s))"
| "length_of (JObj kvs) = prop_of (JObj kvs) ''length''"
| "length_of v = JUndefined"

text \<open>
  \<^verbatim>\<open>v > 0\<close>; \<open>None\<close> when the comparison throws a \<^verbatim>\<open>TypeError\<close>. A number is positive when it
  is neither zero nor \<^verbatim>\<open>NaN\<close> and prints without a minus sign. A string is converted to a number
  first; whether that number is positive is the parameter \<open>positive\<close> (the conversion is the
  language's, on floating point). An array or an object is compared through its string, which
  for an object is never a number; the conversion throws where \<open>to_string\<close> does.
\<close>

fun gt_zero :: "(string \<Rightarrow> bool) \<Rightarrow> jsval \<Rightarrow> bool option" where
  "gt_zero positive JUndefined = Some False"
| "gt_zero positive JNull = Some False"
| "gt_zero positive (JBool b) = Some b"
| "gt_zero positive (JNum n) = Some (truthy (JNum n) \<and> take 1 n \<noteq> ''-'')"
| "gt_zero positive (JStr s) = Some (positive s)"
| "gt_zero positive (JArr xs) = map_option positive (to_string (JArr xs))"
| "gt_zero positive (JObj kvs) = map_option (\<lambda>s. False) (to_string (JObj kvs))"

text \<open>
  The own enumerable properties that \<^verbatim>\<open>{...v}\<close> copies: those of an object, the indexed
  elements of an array or a string, none of anything else.
\<close>

definition spread :: "jsval \<Rightarrow> (string \<times> jsval) list" where
  "spread v =
     (case v of JObj kvs \<Rightarrow> kvs
      | _ \<Rightarrow> zip (map dec_nat [0..<length (object_values v)]) (object_values v))"

record quiz_config =
  level :: string
  questionCount :: jsval
  focus :: string

definition defaultQuizConfig :: quiz_config where
  "defaultQuizConfig =
     \<lparr>level = ''intermediate'', questionCount = JNum ''10'', focus = ''Vocabulary''\<rparr>"

text \<open>
  The state of \<^verbatim>\<open>QuizPage\<close> (lines 37-42); \<^verbatim>\<open>status\<close> is its two fields, and \<open>status_error\<close>
  holds the error whose message \<^verbatim>\<open>status.error\<close> is.
\<close>

record quiz_page =
  config :: quiz_config
  session :: jsval
  questions :: "jsval list"
  answers :: "(string \<times> string) list"
  submission :: jsval
  status_loading :: bool
  status_error :: "js_error option"

definition initial_quiz_page :: quiz_page where
  "initial_quiz_page =
     \<lparr>config = defaultQuizConfig, session = JNull, questions = [], answers = [],
      submission = JNull, status_loading = False, status_error = None\<rparr>"

text \<open>
  The property key of a question in the AnswerMap: the id that \<^verbatim>\<open>getQuestionId\<close> gives,
  converted as the computed key of \<^verbatim>\<open>acc[getQuestionId(question, index)]\<close> is; \<open>None\<close> when
  either throws.
\<close>

definition answer_key :: "nat \<Rightarrow> jsval \<Rightarrow> string option" where
  "answer_key index question =
     (case getQuestionId question index of None \<Rightarrow> None | Some questionId \<Rightarrow> to_string questionId)"

text \<open>
  The \<^verbatim>\<open>reduce\<close> of lines 72-77 over the questions with their indices: one assignment of \<^verbatim>\<open>''\<close>
  per question, in order; \<open>None\<close> when a key throws.
\<close>

fun reduce_answers ::
    "(string \<times> string) list \<Rightarrow> (nat \<times> jsval) list \<Rightarrow> (string \<times> string) list option" where
  "reduce_answers acc [] = Some acc"
| "reduce_answers acc ((index, question) # rest) =
     (case answer_key index question of
        None \<Rightarrow> None
      | Some key \<Rightarrow> reduce_answers (assign_primitive key [] acc) rest)"

definition initial_answers :: "jsval list \<Rightarrow> (string \<times> string) list option" where
  "initial_answers nextQuestions = reduce_answers [] (enumerate 0 nextQuestions)"

text \<open>\<^verbatim>\<open>response?.questions?.length > 0\<close> (line 66)\<close>

definition embeds_questions :: "(string \<Rightarrow> bool) \<Rightarrow> jsval \<Rightarrow> bool option" where
  "embeds_questions positive response =
     gt_zero positive (length_of (prop_of response ''questions''))"

text \<open>
  The session that line 63 sets, \<^verbatim>\<open>{ ...response, sessionId, focus: config.focus }\<close>, with the
  \<^verbatim>\<open>sessionId\<close> of line 62.
\<close>

definition new_session :: "quiz_config \<Rightarrow> jsval \<Rightarrow> jsval" where
  "new_session cfg response =
     (let sessionId =
            coalesce (prop_of response ''session_id'')
              (coalesce (prop_of response ''sessionId'') (prop_of response ''id''))
      in JObj (define_property ''focus'' (JStr (focus cfg))
                (define_property ''sessionId'' sessionId (spread response))))"

text \<open>
  \<^verbatim>\<open>questionsPayload\<close> (lines 65-68): the response itself when it embeds questions, otherwise
  what \<^verbatim>\<open>apiClient.fetchQuizQuestions\<close> gives; \<open>fetched\<close> is the outcome of that call.
\<close>

definition questionsPayload :: "(string \<Rightarrow> bool) \<Rightarrow> jsval \<Rightarrow> jsval outcome \<Rightarrow> jsval outcome" where
  "questionsPayload positive response fetched =
     (case embeds_questions positive response of
        None \<Rightarrow> Inl TypeError
      | Some embedded \<Rightarrow> if embedded then Inr response else fetched)"

text \<open>
  The \<^verbatim>\<open>try\<close> block of \<^verbatim>\<open>startQuiz\<close> (lines 54-77); \<open>started\<close> is the outcome of
  \<^verbatim>\<open>apiClient.startQuiz\<close>. The result is the state with the updates made so far and the error
  thrown, if any.
\<close>

definition startQuiz_try ::
    "(string \<Rightarrow> bool) \<Rightarrow> jsval outcome \<Rightarrow> jsval outcome \<Rightarrow> quiz_page
       \<Rightarrow> quiz_page \<times> js_error option" where
  "startQuiz_try positive started fetched s =
     (case started of
        Inl e \<Rightarrow> (s, Some e)
      | Inr response \<Rightarrow>
          let s1 = s\<lparr>session := new_session (config s) response\<rparr>
          in (case questionsPayload positive response fetched of
                Inl e \<Rightarrow> (s1, Some e)
              | Inr payload \<Rightarrow>
                  let nextQuestions = normalizeQuestions payload;
                      s2 = s1\<lparr>questions := nextQuestions\<rparr>
                  in (case initial_answers nextQuestions of
                        None \<Rightarrow> (s2, Some TypeError)
                      | Some nextAnswers \<Rightarrow> (s2\<lparr>answers := nextAnswers\<rparr>, None))))"

text \<open>\<^verbatim>\<open>startQuiz\<close> (lines 49-84).\<close>

definition startQuiz ::
    "(string \<Rightarrow> bool) \<Rightarrow> jsval outcome \<Rightarrow> jsval outcome \<Rightarrow> quiz_page \<Rightarrow> quiz_page" where
  "startQuiz positive started fetched s =
     (case startQuiz_try positive started fetched
             (s\<lparr>status_loading := True, status_error := None, submission := JNull\<rparr>) of
        (s', Some e) \<Rightarrow> s'\<lparr>status_loading := False, status_error := Some e\<rparr>
      | (s', None) \<Rightarrow> s'\<lparr>status_loading := False, status_error := None\<rparr>)"

text \<open>A run of \<^verbatim>\<open>startQuiz\<close> fails when its \<^verbatim>\<open>try\<close> block throws.\<close>

definition startQuiz_fails ::
    "(string \<Rightarrow> bool) \<Rightarrow> jsval outcome \<Rightarrow> jsval outcome \<Rightarrow> quiz_page \<Rightarrow> bool" where
  "startQuiz_fails positive started fetched s =
     (snd (startQuiz_try positive started fetched
             (s\<lparr>status_loading := True, status_error := None, submission := JNull\<rparr>)) \<noteq> None)"

text \<open>
  \<^verbatim>\<open>handleAnswerChange\<close> (lines 86-88), as the update of the \<^verbatim>\<open>answers\<close> state. When the
  conversion of the key throws, the updater throws and gives no new state: the AnswerMap stays.
\<close>

definition handleAnswerChange ::
    "jsval \<Rightarrow> string \<Rightarrow> (string \<times> string) list \<Rightarrow> (string \<times> string) list" where
  "handleAnswerChange questionKey choiceValue prev =
     (case to_string questionKey of
        None \<Rightarrow> prev
      | Some key \<Rightarrow> define_property key choiceValue prev)"

text \<open>\<^verbatim>\<open>answeredCount\<close> and \<^verbatim>\<open>allAnswered\<close> (lines 90-98).\<close>

definition answeredCount :: "(string \<times> string) list \<Rightarrow> nat" where
  "answeredCount answers_now = length (filter (\<lambda>v. v \<noteq> []) (map snd answers_now))"

definition allAnswered :: "jsval list \<Rightarrow> (string \<times> string) list \<Rightarrow> bool" where
  "allAnswered questions_now answers_now =
     (length questions_now > 0 \<and> answeredCount answers_now = length questions_now)"

section \<open>Dashboard page: the refresh\<close>

text \<open>The state of \<^verbatim>\<open>DashboardPage\<close>; \<open>error\<close> holds the error whose message \<^verbatim>\<open>error\<close> is.\<close>

record dashboard_page =
  dashboardData :: jsval
  lessonPlan :: "jsval list"
  loading :: bool
  error :: "js_error option"

text \<open>
  \<^verbatim>\<open>await Promise.all([a, b])\<close>: the pair of results when both resolve, otherwise the rejection
  that comes first; \<open>first_settles_first\<close> says which call settles first when both reject.
\<close>

definition promise_all :: "bool \<Rightarrow> 'a outcome \<Rightarrow> 'b outcome \<Rightarrow> ('a \<times> 'b) outcome" where
  "promise_all first_settles_first a b =
     (case (a, b) of
        (Inr x, Inr y) \<Rightarrow> Inr (x, y)
      | (Inl e, Inr y) \<Rightarrow> Inl e
      | (Inr x, Inl e) \<Rightarrow> Inl e
      | (Inl e1, Inl e2) \<Rightarrow> Inl (if first_settles_first then e1 else e2))"

text \<open>
  \<^verbatim>\<open>fetchAllData\<close> (lines 325-346); \<open>dashboardResponse\<close> and \<open>lessonPlanResponse\<close> are the
  outcomes of \<^verbatim>\<open>getDashboard\<close> and \<^verbatim>\<open>getLessonPlan\<close>.
\<close>

definition fetchAllData ::
    "jsval \<Rightarrow> bool \<Rightarrow> jsval outcome \<Rightarrow> jsval outcome \<Rightarrow> dashboard_page \<Rightarrow> dashboard_page" where
  "fetchAllData token_now first_settles_first dashboardResponse lessonPlanResponse s =
     (if \<not> truthy token_now then s
      else (case promise_all first_settles_first dashboardResponse lessonPlanResponse of
              Inr (d, l) \<Rightarrow>
                s\<lparr>error := None, dashboardData := d, lessonPlan := normalizeLessons l, loading := False\<rparr>
            | Inl e \<Rightarrow> s\<lparr>error := Some e, loading := False\<rparr>))"

section \<open>HTTP client\<close>

text \<open>
  The text of a response body or of a storage item, by what \<^verbatim>\<open>JSON.parse\<close> makes of it: the
  empty text, a text that does not parse, or a text that parses to a value.
\<close>

datatype body_text = EmptyText | Malformed | JsonText jsval

text \<open>\<^verbatim>\<open>response.ok\<close>: the status is in the range 200-299.\<close>

definition response_ok :: "nat \<Rightarrow> bool" where
  "response_ok status = (200 \<le> status \<and> status \<le> 299)"

text \<open>The body as \<^verbatim>\<open>request\<close> reads it (lines 286-295); a failed parse is only logged.\<close>

definition parsed_body :: "body_text \<Rightarrow> jsval" where
  "parsed_body body = (case body of EmptyText \<Rightarrow> JUndefined | Malformed \<Rightarrow> JUndefined | JsonText v \<Rightarrow> v)"

text \<open>
  \<^verbatim>\<open>request\<close> (apiClient, lines 270-303), from the response on. \<^verbatim>\<open>new Error(message)\<close> converts
  the truthy \<^verbatim>\<open>message\<close> of the body to a string, and throws the \<^verbatim>\<open>TypeError\<close> of that
  conversion in place of the error when it fails.
\<close>

definition request :: "nat \<Rightarrow> body_text \<Rightarrow> jsval outcome" where
  "request status body =
     (let data = parsed_body body
      in if \<not> response_ok status
         then (if truthy (prop_of data ''message'')
               then (case to_string (prop_of data ''message'') of
                       None \<Rightarrow> Inl TypeError
                     | Some message \<Rightarrow> Inl (Error message))
               else Inl (Error (''Request failed with status '' @ dec_nat status)))
         else Inr data)"

section \<open>Session store\<close>

definition signed_out :: jsval where
  "signed_out = JObj [(''user'', JNull), (''token'', JNull)]"

text \<open>
  \<^verbatim>\<open>getStoredAuth\<close> (AuthContext, lines 159-171); \<open>item\<close> is what \<^verbatim>\<open>localStorage.getItem\<close>
  returns, \<open>None\<close> for \<^verbatim>\<open>null\<close>.
\<close>

definition getStoredAuth :: "bool \<Rightarrow> body_text option \<Rightarrow> jsval" where
  "getStoredAuth window_defined item =
     (if \<not> window_defined then signed_out
      else (case item of
              None \<Rightarrow> signed_out
            | Some EmptyText \<Rightarrow> signed_out
            | Some Malformed \<Rightarrow> signed_out
            | Some (JsonText v) \<Rightarrow> v))"

text \<open>The provider: its two pieces of state and the storage slot it writes.\<close>

record auth_provider =
  authState :: jsval
  isAuthenticating :: bool
  localStorage :: "body_text option"

text \<open>What the provider hands to its consumers (lines 174, 237-248).\<close>

definition user :: "auth_provider \<Rightarrow> jsval" where
  "user w = prop_of (authState w) ''user''"

definition token :: "auth_provider \<Rightarrow> jsval" where
  "token w = prop_of (authState w) ''token''"

definition isAuthenticated :: "auth_provider \<Rightarrow> bool" where
  "isAuthenticated w = truthy (token w)"

text \<open>
  The provider as first rendered over a storage slot. The destructuring of line 174 throws on a
  state that is \<^verbatim>\<open>null\<close>, which is what a stored \<^verbatim>\<open>null\<close> is read as: then there is no provider.
\<close>

definition mount :: "bool \<Rightarrow> body_text option \<Rightarrow> auth_provider option" where
  "mount window_defined item =
     (if nullish (getStoredAuth window_defined item) then None
      else Some \<lparr>authState = getStoredAuth window_defined item, isAuthenticating = False,
                 localStorage = item\<rparr>)"

text \<open>
  What \<^verbatim>\<open>JSON.parse\<close> reads back from the text that \<^verbatim>\<open>JSON.stringify\<close> writes for a value: the
  value itself, but with \<^verbatim>\<open>null\<close> for every number that is not finite and for every
  \<^verbatim>\<open>undefined\<close> element of an array, and without the properties that are \<^verbatim>\<open>undefined\<close>.
\<close>

fun json_roundtrip :: "jsval \<Rightarrow> jsval" where
  "json_roundtrip (JNum n) = (if n \<in> {''Infinity'', ''-Infinity'', ''NaN''} then JNull else JNum n)"
| "json_roundtrip (JArr xs) =
     JArr (map (\<lambda>x. if x = JUndefined then JNull else json_roundtrip x) xs)"
| "json_roundtrip (JObj kvs) =
     JObj (map (\<lambda>kv. (fst kv, json_roundtrip (snd kv))) (filter (\<lambda>kv. snd kv \<noteq> JUndefined) kvs))"
| "json_roundtrip v = v"

text \<open>
  \<^verbatim>\<open>persistState\<close> (lines 177-190), in a browser whose storage takes the write: the slot then
  holds the text of \<open>nextState\<close>.
\<close>

definition persistState :: "bool \<Rightarrow> jsval \<Rightarrow> auth_provider \<Rightarrow> auth_provider" where
  "persistState window_defined nextState w =
     (if \<not> window_defined then w\<lparr>authState := nextState\<rparr>
      else if \<not> truthy (prop_of nextState ''token'')
        then w\<lparr>authState := nextState, localStorage := None\<rparr>
      else w\<lparr>authState := nextState,
             localStorage := Some (JsonText (json_roundtrip nextState))\<rparr>)"

text \<open>
  \<^verbatim>\<open>authenticate\<close> (lines 192-213); \<open>signed_up\<close> and \<open>logged_in\<close> are the outcomes of
  \<^verbatim>\<open>apiClient.signup\<close> and \<^verbatim>\<open>apiClient.login\<close>. The result is what the call returns or throws,
  and the provider afterwards.
\<close>

definition authenticate ::
    "bool \<Rightarrow> string \<Rightarrow> jsval outcome \<Rightarrow> jsval outcome \<Rightarrow> auth_provider
       \<Rightarrow> jsval outcome \<times> auth_provider" where
  "authenticate window_defined action signed_up logged_in w =
     (case (if action = ''signup'' then signed_up else logged_in) of
        Inl e \<Rightarrow> (Inl e, w\<lparr>isAuthenticating := False\<rparr>)
      | Inr response \<Rightarrow>
          let nextState =
                JObj [(''user'', coalesce (prop_of response ''user'') JNull),
                      (''token'', coalesce (prop_of response ''token'') JNull)]
          in (Inr response, (persistState window_defined nextState w)\<lparr>isAuthenticating := False\<rparr>))"

definition signup :: "bool \<Rightarrow> jsval outcome \<Rightarrow> auth_provider \<Rightarrow> jsval outcome \<times> auth_provider" where
  "signup window_defined signed_up w = authenticate window_defined ''signup'' signed_up signed_up w"

definition login :: "bool \<Rightarrow> jsval outcome \<Rightarrow> auth_provider \<Rightarrow> jsval outcome \<times> auth_provider" where
  "login window_defined logged_in w = authenticate window_defined ''login'' logged_in logged_in w"

text \<open>
  \<^verbatim>\<open>logout\<close> (lines 225-235); \<open>logged_out\<close> is the outcome of \<^verbatim>\<open>apiClient.logout\<close>, which is
  called only with a truthy token and whose failure is only logged.
\<close>

definition logout :: "bool \<Rightarrow> jsval outcome \<Rightarrow> auth_provider \<Rightarrow> auth_provider" where
  "logout window_defined logged_out w =
     (if truthy (token w)
      then (case logged_out of
              Inl e \<Rightarrow> persistState window_defined signed_out w
            | Inr response \<Rightarrow> persistState window_defined signed_out w)
      else persistState window_defined signed_out w)"

text \<open>
  The states of the provider in a browser: it mounts over the slot as it finds it, whatever it
  holds, and from then on signs up, logs in, logs out and is mounted again over the slot as it
  stands (a page reload).
\<close>

inductive reachable :: "auth_provider \<Rightarrow> bool" where
  init: "mount True item = Some w \<Longrightarrow> reachable w"
| reload: "reachable w \<Longrightarrow> mount True (localStorage w) = Some w' \<Longrightarrow> reachable w'"
| signup: "reachable w \<Longrightarrow> reachable (snd (signup True signed_up w))"
| login: "reachable w \<Longrightarrow> reachable (snd (login True logged_in w))"
| logout: "reachable w \<Longrightarrow> reachable (logout True logged_out w)"

section \<open>The properties, as the specification words them\<close>

text \<open>
  The normaliser's policy for a payload that is not an array: the list of the first list-valued
  field among \<open>aliases\<close>, otherwise the own values that \<open>keep\<close> accepts, in key order.
\<close>

definition ordered_policy :: "string list \<Rightarrow> (jsval \<Rightarrow> bool) \<Rightarrow> jsval \<Rightarrow> jsval list" where
  "ordered_policy aliases keep payload =
     (case find (\<lambda>alias. isArray (prop_of payload alias)) aliases of
        Some alias \<Rightarrow> elements (prop_of payload alias)
      | None \<Rightarrow> filter keep (object_values payload))"

text \<open>A record-valued, non-primitive value: an object or an array.\<close>

fun is_record :: "jsval \<Rightarrow> bool" where
  "is_record (JObj kvs) = True"
| "is_record (JArr xs) = True"
| "is_record v = False"

text \<open>The one policy that the specification gives to both normalisers.\<close>

definition specified_policy :: "jsval \<Rightarrow> jsval list" where
  "specified_policy payload =
     ordered_policy [''questions'', ''lessons'', ''plan'', ''sections''] is_record payload"

text \<open>The property keys of a question list: \<open>answer_key\<close> at each position.\<close>

definition question_keys :: "jsval list \<Rightarrow> string option list" where
  "question_keys qs = map (\<lambda>(index, question). answer_key index question) (enumerate 0 qs)"

text \<open>The AnswerMap invariant: the keys are exactly the question ids, each mapped to \<^verbatim>\<open>''\<close>.\<close>

definition answers_initialised :: "quiz_page \<Rightarrow> bool" where
  "answers_initialised s =
     (Some ` set (map fst (answers s)) = set (question_keys (questions s))
      \<and> set (map snd (answers s)) \<subseteq> {[]})"

text \<open>No partial session: session, questions and AnswerMap as before the call.\<close>

definition same_session :: "quiz_page \<Rightarrow> quiz_page \<Rightarrow> bool" where
  "same_session s s' =
     (session s' = session s \<and> questions s' = questions s \<and> answers s' = answers s)"

text \<open>
  The Identity invariant: the token is null iff the session is unauthenticated, and a null token
  comes with a null user, in memory and in the stored identity.
\<close>

definition identity_invariant :: "auth_provider \<Rightarrow> bool" where
  "identity_invariant w =
     ((token w = JNull) = (\<not> isAuthenticated w)
      \<and> (token w = JNull \<longrightarrow> user w = JNull)
      \<and> (\<forall>v. localStorage w = Some (JsonText v) \<longrightarrow>
             (prop_of v ''token'' = JNull \<longrightarrow> prop_of v ''user'' = JNull)))"

text \<open>
  What the provider does keep between memory and storage: an authenticated session has a stored
  identity, and a stored identity is the one in memory, as it is or as JSON writes it.
\<close>

definition stored_identity_invariant :: "auth_provider \<Rightarrow> bool" where
  "stored_identity_invariant w =
     ((localStorage w \<in> {None, Some EmptyText, Some Malformed} \<longrightarrow> \<not> isAuthenticated w)
      \<and> (\<forall>v. localStorage w = Some (JsonText v) \<longrightarrow>
             v = authState w \<or> v = json_roundtrip (authState w)))"

text \<open>
  The message of a failed request as the specification has it: the body's \<^verbatim>\<open>message\<close> field
  when it is present, the generic text otherwise.
\<close>

definition specified_message :: "nat \<Rightarrow> body_text \<Rightarrow> string option" where
  "specified_message status body =
     (if prop_of (parsed_body body) ''message'' \<noteq> JUndefined
      then to_string (prop_of (parsed_body body) ''message'')
      else Some (''Request failed with status '' @ dec_nat status))"

section \<open>Payload normaliser\<close>

lemma isArray_truthy: "isArray v \<Longrightarrow> truthy v"
  by (cases v) simp_all

text \<open>
  Claim C7. An array payload is returned as it is: \<^verbatim>\<open>normalizeQuestions(p)\<close> is \<open>p\<close> itself for
  every array \<open>p\<close>, and so is \<^verbatim>\<open>normalizeLessons(p)\<close>.
\<close>

theorem normalize_array_identity:
  "JArr (normalizeQuestions (JArr p)) = JArr p \<and> JArr (normalizeLessons (JArr p)) = JArr p"
  by (simp add: normalizeQuestions_def normalizeLessons_def)

text \<open>
  Claim C2, as the code has it. The two normalisers do not share one policy over the four
  aliases. On a payload that is not an array, \<^verbatim>\<open>normalizeQuestions\<close> knows the alias
  \<^verbatim>\<open>questions\<close> only and keeps no own value in its fallback, which is the empty list;
  \<^verbatim>\<open>normalizeLessons\<close> knows \<^verbatim>\<open>lessons\<close>, \<^verbatim>\<open>plan\<close> and \<^verbatim>\<open>sections\<close>, in this order, and its
  fallback keeps, in key order, exactly the own values whose \<^verbatim>\<open>typeof\<close> is \<^verbatim>\<open>'object'\<close>.
\<close>

theorem normalizers_follow_own_policies:
  assumes "\<not> isArray payload"
  shows "normalizeQuestions payload = ordered_policy [''questions''] (\<lambda>v. False) payload
    \<and> normalizeLessons payload =
        ordered_policy [''lessons'', ''plan'', ''sections''] typeof_object payload"
  using assms
  by (cases payload)
     (auto simp add: normalizeQuestions_def normalizeLessons_def ordered_policy_def isArray_truthy)

text \<open>
  An object without any alias: \<^verbatim>\<open>normalizeQuestions\<close> gives the empty list, \<^verbatim>\<open>normalizeLessons\<close>
  the \<^verbatim>\<open>null\<close>, the record and the array among the values, and drops the string.
\<close>

theorem normalizers_follow_own_policies_witness:
  "\<not> isArray (JObj [(''a'', JNull), (''b'', JStr ''x''), (''c'', JObj [(''title'', JStr ''t'')]),
                     (''d'', JArr [JNum ''1''])])
   \<and> normalizeQuestions (JObj [(''a'', JNull), (''b'', JStr ''x''),
        (''c'', JObj [(''title'', JStr ''t'')]), (''d'', JArr [JNum ''1''])]) = []
   \<and> normalizeLessons (JObj [(''a'', JNull), (''b'', JStr ''x''),
        (''c'', JObj [(''title'', JStr ''t'')]), (''d'', JArr [JNum ''1''])])
       = [JNull, JObj [(''title'', JStr ''t'')], JArr [JNum ''1'']]"
  using normalizers_follow_own_policies
    [of "JObj [(''a'', JNull), (''b'', JStr ''x''), (''c'', JObj [(''title'', JStr ''t'')]),
               (''d'', JArr [JNum ''1''])]"]
  by (simp add: ordered_policy_def)

text \<open>
  Claim C2 as stated fails: on the object \<^verbatim>\<open>{lessons: [{title: "Unit 1"}]}\<close> the specified
  policy returns the list under \<^verbatim>\<open>lessons\<close>, and \<^verbatim>\<open>normalizeQuestions\<close> returns the empty list.
\<close>

theorem normalizeQuestions_ignores_lessons_alias:
  "normalizeQuestions (JObj [(''lessons'', JArr [JObj [(''title'', JStr ''Unit 1'')]])]) = []
   \<and> specified_policy (JObj [(''lessons'', JArr [JObj [(''title'', JStr ''Unit 1'')]])])
       = [JObj [(''title'', JStr ''Unit 1'')]]"
  by (simp add: normalizeQuestions_def specified_policy_def ordered_policy_def)

section \<open>Question ids\<close>

text \<open>
  Claim C10, as the code has it. When the \<^verbatim>\<open>question_number\<close> of a question is falsy (absent,
  \<^verbatim>\<open>null\<close>, \<^verbatim>\<open>0\<close>, the empty string), \<^verbatim>\<open>getQuestionId\<close> does not use it and does not throw: the
  result is the \<^verbatim>\<open>id\<close> field, else the \<^verbatim>\<open>questionId\<close> field, else \<^verbatim>\<open>q-\<close> followed by the index.
  A \<^verbatim>\<open>question_number\<close> of \<^verbatim>\<open>0\<close> is never printed into the id, but the id \<^verbatim>\<open>question-0\<close> can still
  come out: it does exactly when the \<^verbatim>\<open>id\<close> field is that string or, the \<^verbatim>\<open>id\<close> being absent
  or \<^verbatim>\<open>null\<close>, the \<^verbatim>\<open>questionId\<close> field is.
\<close>

theorem getQuestionId_falsy_question_number:
  assumes "\<not> truthy (prop_of question ''question_number'')"
  shows "getQuestionId question i =
           Some (if \<not> nullish (prop_of question ''id'') then prop_of question ''id''
                 else if \<not> nullish (prop_of question ''questionId'')
                   then prop_of question ''questionId''
                 else JStr (''q-'' @ dec_nat i))
    \<and> (getQuestionId question i = Some (JStr ''question-0'')) =
        (prop_of question ''id'' = JStr ''question-0''
         \<or> nullish (prop_of question ''id'')
             \<and> prop_of question ''questionId'' = JStr ''question-0'')"
  using assms by (auto simp add: getQuestionId_def coalesce_def)

text \<open>A question that carries nothing but \<^verbatim>\<open>question_number: 0\<close>, at position 3, gets \<^verbatim>\<open>q-3\<close>.\<close>

theorem getQuestionId_falsy_question_number_witness:
  "\<not> truthy (prop_of (JObj [(''question_number'', JNum ''0'')]) ''question_number'')
   \<and> getQuestionId (JObj [(''question_number'', JNum ''0'')]) 3 = Some (JStr ''q-3'')
   \<and> getQuestionId (JObj [(''question_number'', JNum ''0'')]) 3 \<noteq> Some (JStr ''question-0'')"
  using getQuestionId_falsy_question_number [of "JObj [(''question_number'', JNum ''0'')]" 3]
  by (simp add: dec_nat.simps digit_def)

text \<open>
  Claim C10 as stated fails: the server sends \<^verbatim>\<open>question_number: 0\<close> together with the id
  \<^verbatim>\<open>question-0\<close>, and the id of the question is \<^verbatim>\<open>question-0\<close>.
\<close>

theorem getQuestionId_zero_number_with_id_question_0:
  "prop_of (JObj [(''question_number'', JNum ''0''), (''id'', JStr ''question-0'')])
       ''question_number'' = JNum ''0''
   \<and> \<not> truthy (JNum ''0'')
   \<and> getQuestionId (JObj [(''question_number'', JNum ''0''), (''id'', JStr ''question-0'')]) 5
       = Some (JStr ''question-0'')"
  by (simp add: getQuestionId_def coalesce_def)

section \<open>Recording answers\<close>

lemma define_property_idem:
  "define_property k v (define_property k v obj) = define_property k v obj"
  by (induction obj) auto

text \<open>
  Claim C9. Recording the same answer twice is recording it once: for every AnswerMap, question
  id and choice value, \<^verbatim>\<open>recordAnswer(id, v)\<close> applied twice gives the AnswerMap that one
  application gives.
\<close>

theorem handleAnswerChange_idempotent:
  "handleAnswerChange questionKey choiceValue (handleAnswerChange questionKey choiceValue prev) =
     handleAnswerChange questionKey choiceValue prev"
  by (simp add: handleAnswerChange_def define_property_idem split: option.split)

section \<open>Answer progress\<close>

text \<open>
  Claim C8. \<^verbatim>\<open>answeredCount\<close> is the number of non-empty values of the AnswerMap, and
  \<^verbatim>\<open>allAnswered\<close> holds exactly when that count is the number of questions and there is at
  least one question; with no question it is false, whatever the AnswerMap.
\<close>

theorem answeredCount_allAnswered:
  "answeredCount a = sum_list (map (\<lambda>(k, v). if v = [] then 0 else 1) a)
   \<and> allAnswered qs a = (answeredCount a = length qs \<and> length qs > 0)
   \<and> \<not> allAnswered [] a
   \<and> \<not> allAnswered [] []"
proof -
  have "answeredCount a = sum_list (map (\<lambda>(k, v). if v = [] then 0 else 1) a)"
    unfolding answeredCount_def by (induction a) auto
  then show ?thesis by (auto simp add: allAnswered_def)
qed

section \<open>Starting a quiz\<close>

lemma keys_define_property:
  "fst ` set (define_property k v obj) = insert k (fst ` set obj)"
  by (induction k v obj rule: define_property.induct) (simp_all add: insert_commute)

lemma values_define_property:
  "snd ` set (define_property k v obj) \<subseteq> insert v (snd ` set obj)"
  by (induction k v obj rule: define_property.induct) auto

lemma keys_assign_primitive:
  "fst ` set (assign_primitive k v obj) =
     (if k = ''__proto__'' \<and> k \<notin> fst ` set obj then fst ` set obj
      else insert k (fst ` set obj))"
  by (auto simp add: assign_primitive_def keys_define_property)

lemma values_assign_primitive:
  "snd ` set (assign_primitive k v obj) \<subseteq> insert v (snd ` set obj)"
  using values_define_property [of k v obj] by (auto simp add: assign_primitive_def)

text \<open>The loop of the \<^verbatim>\<open>reduce\<close>, from any accumulator without the reserved key.\<close>

lemma keys_reduce_answers:
  "reduce_answers acc iqs = Some a \<Longrightarrow> ''__proto__'' \<notin> fst ` set acc \<Longrightarrow>
   Some ` fst ` set a =
     Some ` fst ` set acc
       \<union> (set (map (\<lambda>(index, question). answer_key index question) iqs) - {Some ''__proto__''})"
proof (induction acc iqs rule: reduce_answers.induct)
  case (1 acc)
  then show ?case by simp
next
  case (2 acc index question rest)
  from "2.prems"(1) obtain key where key: "answer_key index question = Some key"
    and rest: "reduce_answers (assign_primitive key [] acc) rest = Some a"
    by (auto split: option.splits)
  have keys: "fst ` set (assign_primitive key [] acc) = fst ` set acc \<union> ({key} - {''__proto__''})"
    using "2.prems"(2) by (auto simp add: keys_assign_primitive)
  then have "''__proto__'' \<notin> fst ` set (assign_primitive key [] acc)"
    using "2.prems"(2) by auto
  from "2.IH" [OF key rest this] keys key show ?case
    by auto
qed

lemma values_reduce_answers:
  "reduce_answers acc iqs = Some a \<Longrightarrow> snd ` set acc \<subseteq> {[]} \<Longrightarrow> snd ` set a \<subseteq> {[]}"
proof (induction acc iqs rule: reduce_answers.induct)
  case (1 acc)
  then show ?case by simp
next
  case (2 acc index question rest)
  from "2.prems"(1) obtain key where key: "answer_key index question = Some key"
    and rest: "reduce_answers (assign_primitive key [] acc) rest = Some a"
    by (auto split: option.splits)
  have "snd ` set (assign_primitive key [] acc) \<subseteq> {[]}"
    using values_assign_primitive [of key "[]" acc] "2.prems"(2) by blast
  from "2.IH" [OF key rest this] show ?case .
qed

lemma keys_initial_answers:
  "initial_answers qs = Some a \<Longrightarrow>
   Some ` fst ` set a = set (question_keys qs) - {Some ''__proto__''}"
  using keys_reduce_answers [of "[]" "enumerate 0 qs" a]
  by (simp add: initial_answers_def question_keys_def)

lemma values_initial_answers: "initial_answers qs = Some a \<Longrightarrow> snd ` set a \<subseteq> {[]}"
  using values_reduce_answers [of "[]" "enumerate 0 qs" a]
  by (simp add: initial_answers_def)

lemma startQuiz_success_answers:
  assumes "\<not> startQuiz_fails positive started fetched s"
  shows "initial_answers (questions (startQuiz positive started fetched s)) =
           Some (answers (startQuiz positive started fetched s))"
  using assms
  by (auto simp add: startQuiz_def startQuiz_fails_def startQuiz_try_def Let_def
      split: sum.splits option.splits)

text \<open>
  What the \<^verbatim>\<open>reduce\<close> does establish after a successful \<^verbatim>\<open>startQuiz\<close>: the keys of the
  AnswerMap are the keys of the returned questions other than \<^verbatim>\<open>__proto__\<close>, and every value
  is the empty string.
\<close>

lemma startQuiz_success_answer_keys:
  assumes "\<not> startQuiz_fails positive started fetched s"
  shows "Some ` set (map fst (answers (startQuiz positive started fetched s))) =
           set (question_keys (questions (startQuiz positive started fetched s)))
             - {Some ''__proto__''}
    \<and> set (map snd (answers (startQuiz positive started fetched s))) \<subseteq> {[]}"
  using keys_initial_answers [OF startQuiz_success_answers [OF assms]]
    values_initial_answers [OF startQuiz_success_answers [OF assms]]
  by simp

text \<open>
  Claim C5 fails on the code, which misses one key. The server's one question has the id
  \<^verbatim>\<open>__proto__\<close>: the start succeeds, the key of the question is \<^verbatim>\<open>__proto__\<close>, and the AnswerMap
  is empty, so that its keys are not the question ids. Recording an answer for the same id
  does define the key.
\<close>

theorem startQuiz_reserved_id_has_no_key:
  "\<not> startQuiz_fails (\<lambda>s. False)
        (Inr (JObj [(''session_id'', JStr ''s1''),
                    (''questions'', JArr [JObj [(''id'', JStr ''__proto__'')]])]))
        (Inl TypeError) initial_quiz_page
   \<and> question_keys (questions (startQuiz (\<lambda>s. False)
        (Inr (JObj [(''session_id'', JStr ''s1''),
                    (''questions'', JArr [JObj [(''id'', JStr ''__proto__'')]])]))
        (Inl TypeError) initial_quiz_page)) = [Some ''__proto__'']
   \<and> answers (startQuiz (\<lambda>s. False)
        (Inr (JObj [(''session_id'', JStr ''s1''),
                    (''questions'', JArr [JObj [(''id'', JStr ''__proto__'')]])]))
        (Inl TypeError) initial_quiz_page) = []
   \<and> \<not> answers_initialised (startQuiz (\<lambda>s. False)
        (Inr (JObj [(''session_id'', JStr ''s1''),
                    (''questions'', JArr [JObj [(''id'', JStr ''__proto__'')]])]))
        (Inl TypeError) initial_quiz_page)
   \<and> handleAnswerChange (JStr ''__proto__'') ''b'' [] = [(''__proto__'', ''b'')]"
  by code_simp

text \<open>
  Claim C1, as the code has it. When a run of \<^verbatim>\<open>startQuiz\<close> fails, the error is surfaced in
  \<^verbatim>\<open>status.error\<close>, the loading flag is reset, and the AnswerMap is the one before the call.
  When the start call itself fails, the session and the question list are the ones before the
  call too. When the start call succeeds, the session has been replaced by the one made from
  the start response; the question list is still the one before the call when the questions
  payload could not be had, the follow-up fetch having failed or the test for embedded
  questions having thrown.
\<close>

theorem startQuiz_failure_state:
  assumes "startQuiz_fails positive started fetched s"
  shows "(\<exists>e. status_error (startQuiz positive started fetched s) = Some e)
    \<and> \<not> status_loading (startQuiz positive started fetched s)
    \<and> answers (startQuiz positive started fetched s) = answers s
    \<and> (case started of
          Inl e \<Rightarrow>
            status_error (startQuiz positive started fetched s) = Some e
            \<and> session (startQuiz positive started fetched s) = session s
            \<and> questions (startQuiz positive started fetched s) = questions s
        | Inr response \<Rightarrow>
            session (startQuiz positive started fetched s) = new_session (config s) response
            \<and> (case questionsPayload positive response fetched of
                  Inl e \<Rightarrow>
                    status_error (startQuiz positive started fetched s) = Some e
                    \<and> questions (startQuiz positive started fetched s) = questions s
                | Inr payload \<Rightarrow>
                    status_error (startQuiz positive started fetched s) = Some TypeError))"
  using assms
  by (auto simp add: startQuiz_fails_def startQuiz_def startQuiz_try_def Let_def
      split: sum.splits option.splits)

text \<open>The start call is refused while a quiz with one answered question is on the page.\<close>

theorem startQuiz_failure_state_witness:
  "startQuiz_fails (\<lambda>s. False) (Inl (Error ''Request failed with status 503'')) (Inl TypeError)
     (initial_quiz_page\<lparr>session := JObj [(''sessionId'', JStr ''s1'')],
        questions := [JObj [(''id'', JStr ''a'')]], answers := [(''a'', ''2'')]\<rparr>)
   \<and> status_error (startQuiz (\<lambda>s. False) (Inl (Error ''Request failed with status 503''))
       (Inl TypeError)
       (initial_quiz_page\<lparr>session := JObj [(''sessionId'', JStr ''s1'')],
          questions := [JObj [(''id'', JStr ''a'')]], answers := [(''a'', ''2'')]\<rparr>))
       = Some (Error ''Request failed with status 503'')
   \<and> questions (startQuiz (\<lambda>s. False) (Inl (Error ''Request failed with status 503''))
       (Inl TypeError)
       (initial_quiz_page\<lparr>session := JObj [(''sessionId'', JStr ''s1'')],
          questions := [JObj [(''id'', JStr ''a'')]], answers := [(''a'', ''2'')]\<rparr>))
       = [JObj [(''id'', JStr ''a'')]]
   \<and> answers (startQuiz (\<lambda>s. False) (Inl (Error ''Request failed with status 503''))
       (Inl TypeError)
       (initial_quiz_page\<lparr>session := JObj [(''sessionId'', JStr ''s1'')],
          questions := [JObj [(''id'', JStr ''a'')]], answers := [(''a'', ''2'')]\<rparr>))
       = [(''a'', ''2'')]
   \<and> session (startQuiz (\<lambda>s. False) (Inl (Error ''Request failed with status 503''))
       (Inl TypeError)
       (initial_quiz_page\<lparr>session := JObj [(''sessionId'', JStr ''s1'')],
          questions := [JObj [(''id'', JStr ''a'')]], answers := [(''a'', ''2'')]\<rparr>))
       = JObj [(''sessionId'', JStr ''s1'')]"
proof -
  have failed: "startQuiz_fails (\<lambda>s. False) (Inl (Error ''Request failed with status 503''))
     (Inl TypeError)
     (initial_quiz_page\<lparr>session := JObj [(''sessionId'', JStr ''s1'')],
        questions := [JObj [(''id'', JStr ''a'')]], answers := [(''a'', ''2'')]\<rparr>)"
    by (simp add: startQuiz_fails_def startQuiz_try_def)
  from startQuiz_failure_state [OF failed] failed show ?thesis
    by simp
qed

text \<open>
  Claim C1 as stated fails twice. The start call returns the session \<^verbatim>\<open>s1\<close> without questions
  and the fetch of the questions is refused: the page keeps the new session. The start call
  returns one question whose \<^verbatim>\<open>question_number\<close> is the object \<^verbatim>\<open>{toString: 1}\<close>: the id of the
  question cannot be printed, the run fails, and the page keeps the new question list.
\<close>

theorem startQuiz_failure_keeps_new_session:
  "startQuiz_fails (\<lambda>s. False) (Inr (JObj [(''session_id'', JStr ''s1'')]))
      (Inl (Error ''Request failed with status 500'')) initial_quiz_page
   \<and> session (startQuiz (\<lambda>s. False) (Inr (JObj [(''session_id'', JStr ''s1'')]))
        (Inl (Error ''Request failed with status 500'')) initial_quiz_page)
       = JObj [(''session_id'', JStr ''s1''), (''sessionId'', JStr ''s1''),
               (''focus'', JStr ''Vocabulary'')]
   \<and> session initial_quiz_page = JNull
   \<and> \<not> same_session initial_quiz_page
        (startQuiz (\<lambda>s. False) (Inr (JObj [(''session_id'', JStr ''s1'')]))
           (Inl (Error ''Request failed with status 500'')) initial_quiz_page)
   \<and> startQuiz_fails (\<lambda>s. False)
        (Inr (JObj [(''session_id'', JStr ''s1''),
           (''questions'', JArr [JObj [(''question_number'', JObj [(''toString'', JNum ''1'')])]])]))
        (Inl TypeError) initial_quiz_page
   \<and> questions (startQuiz (\<lambda>s. False)
        (Inr (JObj [(''session_id'', JStr ''s1''),
           (''questions'', JArr [JObj [(''question_number'', JObj [(''toString'', JNum ''1'')])]])]))
        (Inl TypeError) initial_quiz_page)
       = [JObj [(''question_number'', JObj [(''toString'', JNum ''1'')])]]
   \<and> questions initial_quiz_page = []
   \<and> \<not> same_session initial_quiz_page
        (startQuiz (\<lambda>s. False)
           (Inr (JObj [(''session_id'', JStr ''s1''),
              (''questions'', JArr [JObj [(''question_number'', JObj [(''toString'', JNum ''1'')])]])]))
           (Inl TypeError) initial_quiz_page)"
  by code_simp

section \<open>Refreshing the dashboard\<close>

text \<open>
  Claim C4. When the summary fetch or the lesson-plan fetch of a refresh rejects, the refresh
  reports one failure, the message of one of the rejections; \<^verbatim>\<open>dashboardData\<close> and
  \<^verbatim>\<open>lessonPlan\<close> are what they were, and the loading flag is reset.
\<close>

theorem fetchAllData_failure_keeps_data:
  assumes "truthy token_now"
    and "isl dashboardResponse \<or> isl lessonPlanResponse"
  shows "dashboardData (fetchAllData token_now first dashboardResponse lessonPlanResponse s)
           = dashboardData s
    \<and> lessonPlan (fetchAllData token_now first dashboardResponse lessonPlanResponse s)
           = lessonPlan s
    \<and> \<not> loading (fetchAllData token_now first dashboardResponse lessonPlanResponse s)
    \<and> (\<exists>message.
          error (fetchAllData token_now first dashboardResponse lessonPlanResponse s) = Some message
          \<and> (dashboardResponse = Inl message \<or> lessonPlanResponse = Inl message))"
  using assms
  by (auto simp add: fetchAllData_def promise_all_def split: sum.splits)

text \<open>The summary arrives and the lesson plan is refused: the page keeps its score and its plan.\<close>

theorem fetchAllData_failure_keeps_data_witness:
  "truthy (JStr ''t0k'')
   \<and> (isl (Inr (JObj [(''currentScore'', JNum ''95'')]) :: jsval outcome)
        \<or> isl (Inl (Error ''Request failed with status 503'') :: jsval outcome))
   \<and> dashboardData (fetchAllData (JStr ''t0k'') True (Inr (JObj [(''currentScore'', JNum ''95'')]))
        (Inl (Error ''Request failed with status 503''))
        \<lparr>dashboardData = JObj [(''currentScore'', JNum ''90'')],
         lessonPlan = [JObj [(''title'', JStr ''Unit 1'')]], loading = False, error = None\<rparr>)
       = JObj [(''currentScore'', JNum ''90'')]
   \<and> lessonPlan (fetchAllData (JStr ''t0k'') True (Inr (JObj [(''currentScore'', JNum ''95'')]))
        (Inl (Error ''Request failed with status 503''))
        \<lparr>dashboardData = JObj [(''currentScore'', JNum ''90'')],
         lessonPlan = [JObj [(''title'', JStr ''Unit 1'')]], loading = False, error = None\<rparr>)
       = [JObj [(''title'', JStr ''Unit 1'')]]
   \<and> error (fetchAllData (JStr ''t0k'') True (Inr (JObj [(''currentScore'', JNum ''95'')]))
        (Inl (Error ''Request failed with status 503''))
        \<lparr>dashboardData = JObj [(''currentScore'', JNum ''90'')],
         lessonPlan = [JObj [(''title'', JStr ''Unit 1'')]], loading = False, error = None\<rparr>)
       = Some (Error ''Request failed with status 503'')"
  using fetchAllData_failure_keeps_data [of "JStr ''t0k''"
      "Inr (JObj [(''currentScore'', JNum ''95'')])"
      "Inl (Error ''Request failed with status 503'')" True
      "\<lparr>dashboardData = JObj [(''currentScore'', JNum ''90'')],
        lessonPlan = [JObj [(''title'', JStr ''Unit 1'')]], loading = False, error = None\<rparr>"]
  by simp

section \<open>Failed requests\<close>

text \<open>
  Claim C6, as the code has it. \<^verbatim>\<open>request\<close> throws exactly when the status is outside
  200-299. What it throws is an error with the generic text \<^verbatim>\<open>Request failed with status N\<close>
  when the \<^verbatim>\<open>message\<close> field of the parsed body is absent or falsy, and an error with that
  field as a string when the field is truthy and has a string. On a success status an empty
  or unparsable body is not thrown: the result is \<^verbatim>\<open>undefined\<close>.
\<close>

theorem request_throws_on_failure_status:
  "isl (request status body) = (\<not> response_ok status)
   \<and> (\<not> response_ok status \<longrightarrow> \<not> truthy (prop_of (parsed_body body) ''message'') \<longrightarrow>
        request status body = Inl (Error (''Request failed with status '' @ dec_nat status)))
   \<and> (\<not> response_ok status \<longrightarrow> truthy (prop_of (parsed_body body) ''message'') \<longrightarrow>
        (\<forall>message. to_string (prop_of (parsed_body body) ''message'') = Some message \<longrightarrow>
           request status body = Inl (Error message)))
   \<and> (response_ok status \<longrightarrow> body \<in> {EmptyText, Malformed} \<longrightarrow>
        request status body = Inr JUndefined)"
  by (auto simp add: request_def parsed_body_def Let_def split: option.splits)

text \<open>
  A 404 with a message in its body, a 502 with an empty body and a 200 whose body does not
  parse.
\<close>

theorem request_throws_on_failure_status_witness:
  "\<not> response_ok 404
   \<and> truthy (prop_of (parsed_body (JsonText (JObj [(''message'', JStr ''Not found'')]))) ''message'')
   \<and> request 404 (JsonText (JObj [(''message'', JStr ''Not found'')])) = Inl (Error ''Not found'')
   \<and> \<not> response_ok 502
   \<and> request 502 EmptyText = Inl (Error ''Request failed with status 502'')
   \<and> response_ok 200
   \<and> Malformed \<in> {EmptyText, Malformed}
   \<and> request 200 Malformed = Inr JUndefined"
  using request_throws_on_failure_status [of 404 "JsonText (JObj [(''message'', JStr ''Not found'')])"]
    request_throws_on_failure_status [of 502 EmptyText]
    request_throws_on_failure_status [of 200 Malformed]
  by (simp add: response_ok_def parsed_body_def dec_nat.simps digit_def)

text \<open>
  Claim C6 as stated fails twice. A 500 whose body is \<^verbatim>\<open>{"message": ""}\<close> has a \<^verbatim>\<open>message\<close>
  field, the empty string, and the error carries the generic text. A 400 whose \<^verbatim>\<open>message\<close> is
  the object \<^verbatim>\<open>{toString: 1}\<close> has a field that cannot be made a string: what is thrown is the
  \<^verbatim>\<open>TypeError\<close> of the conversion, with neither the field nor the generic text.
\<close>

theorem request_message_not_taken_from_body:
  "request 500 (JsonText (JObj [(''message'', JStr [])]))
     = Inl (Error ''Request failed with status 500'')
   \<and> prop_of (parsed_body (JsonText (JObj [(''message'', JStr [])]))) ''message'' = JStr []
   \<and> specified_message 500 (JsonText (JObj [(''message'', JStr [])])) = Some []
   \<and> request 400 (JsonText (JObj [(''message'', JObj [(''toString'', JNum ''1'')])]))
       = Inl TypeError
   \<and> specified_message 400 (JsonText (JObj [(''message'', JObj [(''toString'', JNum ''1'')])]))
       = None"
  by code_simp

section \<open>The identity in memory and in storage\<close>

lemma falsy_token:
  "(\<not> truthy v) = (v \<in> {JUndefined, JNull, JBool False, JNum ''0'', JNum ''NaN'', JStr []})"
  by (cases v) auto

lemma stored_identity_mount:
  "mount True item = Some w \<Longrightarrow> stored_identity_invariant w"
  by (cases item rule: option.exhaust; cases "the item")
     (auto simp add: stored_identity_invariant_def mount_def getStoredAuth_def token_def
        isAuthenticated_def signed_out_def split: if_splits)

lemma stored_identity_persistState:
  "stored_identity_invariant (persistState True nextState w)"
  by (auto simp add: stored_identity_invariant_def persistState_def token_def isAuthenticated_def)

lemma stored_identity_flag:
  "stored_identity_invariant w \<Longrightarrow> stored_identity_invariant (w\<lparr>isAuthenticating := b\<rparr>)"
  by (auto simp add: stored_identity_invariant_def token_def isAuthenticated_def)

lemma stored_identity_authenticate:
  "stored_identity_invariant w \<Longrightarrow>
   stored_identity_invariant (snd (authenticate True action a b w))"
  by (auto simp add: authenticate_def Let_def stored_identity_flag stored_identity_persistState
      split: sum.splits)

lemma stored_identity_logout: "stored_identity_invariant (logout True r w)"
  by (auto simp add: logout_def stored_identity_persistState split: sum.splits)

lemma stored_identity_reachable: "reachable w \<Longrightarrow> stored_identity_invariant w"
proof (induction rule: reachable.induct)
  case (init item w)
  then show ?case by (rule stored_identity_mount)
next
  case (reload w w')
  then show ?case by (simp add: stored_identity_mount)
next
  case (signup w signed_up)
  then show ?case by (simp add: signup_def stored_identity_authenticate)
next
  case (login w logged_in)
  then show ?case by (simp add: login_def stored_identity_authenticate)
next
  case (logout w logged_out)
  then show ?case by (simp add: stored_identity_logout)
qed

text \<open>What a successful \<^verbatim>\<open>authenticate\<close> leaves in memory and in the slot.\<close>

lemma authenticate_success:
  "(if action = ''signup'' then a else b) = Inr response \<Longrightarrow>
   authState (snd (authenticate True action a b w)) =
     JObj [(''user'', coalesce (prop_of response ''user'') JNull),
           (''token'', coalesce (prop_of response ''token'') JNull)]
   \<and> localStorage (snd (authenticate True action a b w)) =
       (if truthy (coalesce (prop_of response ''token'') JNull)
        then Some (JsonText (json_roundtrip
               (JObj [(''user'', coalesce (prop_of response ''user'') JNull),
                      (''token'', coalesce (prop_of response ''token'') JNull)])))
        else None)"
  by (simp add: authenticate_def persistState_def Let_def)

text \<open>
  Claim C3, as the code has it. In every state that init, signup, login and logout reach in a
  browser whose storage takes the writes: the session is unauthenticated exactly when the token
  is falsy, that is \<^verbatim>\<open>null\<close>, \<^verbatim>\<open>undefined\<close>, \<^verbatim>\<open>false\<close>, \<^verbatim>\<open>0\<close>, \<^verbatim>\<open>NaN\<close> or the empty string; an
  authenticated session has a stored identity; and a stored identity is the one in memory, as
  it is or as JSON writes it. A logout leaves \<^verbatim>\<open>{user: null, token: null}\<close> in memory and no
  item in the slot, and so does a mount over a slot that is absent, empty or unparsable. A
  successful login or signup leaves \<^verbatim>\<open>{user: response.user ?? null, token: response.token ?? null}\<close>
  in memory, whatever the two are, with the text of that identity in the slot when the token
  is truthy and no item when it is not; a failed one leaves memory and slot as they were.
\<close>

theorem reachable_identity:
  assumes "reachable w"
  shows "(\<not> isAuthenticated w) =
           (token w \<in> {JUndefined, JNull, JBool False, JNum ''0'', JNum ''NaN'', JStr []})
    \<and> stored_identity_invariant w
    \<and> authState (logout True logged_out w) = signed_out
    \<and> localStorage (logout True logged_out w) = None
    \<and> (localStorage w \<in> {None, Some EmptyText, Some Malformed} \<longrightarrow>
         mount True (localStorage w) =
           Some \<lparr>authState = signed_out, isAuthenticating = False, localStorage = localStorage w\<rparr>)
    \<and> authState (snd (login True (Inr response) w)) =
         JObj [(''user'', coalesce (prop_of response ''user'') JNull),
               (''token'', coalesce (prop_of response ''token'') JNull)]
    \<and> localStorage (snd (login True (Inr response) w)) =
         (if truthy (coalesce (prop_of response ''token'') JNull)
          then Some (JsonText (json_roundtrip
                 (JObj [(''user'', coalesce (prop_of response ''user'') JNull),
                        (''token'', coalesce (prop_of response ''token'') JNull)])))
          else None)
    \<and> snd (signup True (Inr response) w) = snd (login True (Inr response) w)
    \<and> snd (login True (Inl e) w) = w\<lparr>isAuthenticating := False\<rparr>
    \<and> snd (signup True (Inl e) w) = w\<lparr>isAuthenticating := False\<rparr>"
proof -
  have unauthenticated: "(\<not> isAuthenticated w) =
      (token w \<in> {JUndefined, JNull, JBool False, JNum ''0'', JNum ''NaN'', JStr []})"
    unfolding isAuthenticated_def by (rule falsy_token)
  have inv: "stored_identity_invariant w"
    using assms by (rule stored_identity_reachable)
  have out: "authState (logout True logged_out w) = signed_out
      \<and> localStorage (logout True logged_out w) = None"
    by (auto simp add: logout_def persistState_def signed_out_def split: sum.splits)
  have remount: "localStorage w \<in> {None, Some EmptyText, Some Malformed} \<longrightarrow>
      mount True (localStorage w) =
        Some \<lparr>authState = signed_out, isAuthenticating = False, localStorage = localStorage w\<rparr>"
    by (auto simp add: mount_def getStoredAuth_def signed_out_def)
  have success: "authState (snd (login True (Inr response) w)) =
         JObj [(''user'', coalesce (prop_of response ''user'') JNull),
               (''token'', coalesce (prop_of response ''token'') JNull)]
    \<and> localStorage (snd (login True (Inr response) w)) =
         (if truthy (coalesce (prop_of response ''token'') JNull)
          then Some (JsonText (json_roundtrip
                 (JObj [(''user'', coalesce (prop_of response ''user'') JNull),
                        (''token'', coalesce (prop_of response ''token'') JNull)])))
          else None)"
    unfolding login_def by (rule authenticate_success) simp
  have same: "snd (signup True (Inr response) w) = snd (login True (Inr response) w)"
    by (simp add: signup_def login_def authenticate_def)
  have failure: "snd (login True (Inl e) w) = w\<lparr>isAuthenticating := False\<rparr>
      \<and> snd (signup True (Inl e) w) = w\<lparr>isAuthenticating := False\<rparr>"
    by (simp add: signup_def login_def authenticate_def)
  from unauthenticated inv out remount success same failure show ?thesis
    by blast
qed

text \<open>
  A login that returns a user and a token over an absent slot: the session is authenticated
  and the slot holds the identity; a logout while the network is down clears both.
\<close>

theorem reachable_identity_witness:
  "reachable (snd (login True
       (Inr (JObj [(''user'', JObj [(''email'', JStr ''a@b.c'')]), (''token'', JStr ''t0k'')]))
       \<lparr>authState = signed_out, isAuthenticating = False, localStorage = None\<rparr>))
   \<and> isAuthenticated (snd (login True
       (Inr (JObj [(''user'', JObj [(''email'', JStr ''a@b.c'')]), (''token'', JStr ''t0k'')]))
       \<lparr>authState = signed_out, isAuthenticating = False, localStorage = None\<rparr>))
   \<and> localStorage (snd (login True
       (Inr (JObj [(''user'', JObj [(''email'', JStr ''a@b.c'')]), (''token'', JStr ''t0k'')]))
       \<lparr>authState = signed_out, isAuthenticating = False, localStorage = None\<rparr>))
       = Some (JsonText
           (JObj [(''user'', JObj [(''email'', JStr ''a@b.c'')]), (''token'', JStr ''t0k'')]))
   \<and> authState (logout True (Inl TypeError) (snd (login True
       (Inr (JObj [(''user'', JObj [(''email'', JStr ''a@b.c'')]), (''token'', JStr ''t0k'')]))
       \<lparr>authState = signed_out, isAuthenticating = False, localStorage = None\<rparr>))) = signed_out
   \<and> localStorage (logout True (Inl TypeError) (snd (login True
       (Inr (JObj [(''user'', JObj [(''email'', JStr ''a@b.c'')]), (''token'', JStr ''t0k'')]))
       \<lparr>authState = signed_out, isAuthenticating = False, localStorage = None\<rparr>))) = None"
proof -
  let ?start = "\<lparr>authState = signed_out, isAuthenticating = False, localStorage = None\<rparr>"
  let ?w = "snd (login True
       (Inr (JObj [(''user'', JObj [(''email'', JStr ''a@b.c'')]), (''token'', JStr ''t0k'')]))
       ?start)"
  have "mount True None = Some ?start"
    by (simp add: mount_def getStoredAuth_def signed_out_def)
  then have "reachable ?start"
    by (rule reachable.init)
  then have reached: "reachable ?w"
    by (rule reachable.login)
  have stored: "localStorage ?w = Some (JsonText
      (JObj [(''user'', JObj [(''email'', JStr ''a@b.c'')]), (''token'', JStr ''t0k'')]))"
    by (simp add: login_def authenticate_def persistState_def coalesce_def Let_def)
  have authenticated: "isAuthenticated ?w"
    by (simp add: isAuthenticated_def token_def login_def authenticate_def persistState_def
        coalesce_def Let_def)
  note identity = reachable_identity [OF reached, of "Inl TypeError"]
  have cleared: "authState (logout True (Inl TypeError) ?w) = signed_out"
    using identity by (rule conjunct2 [THEN conjunct2, THEN conjunct1])
  have removed: "localStorage (logout True (Inl TypeError) ?w) = None"
    using identity by (rule conjunct2 [THEN conjunct2, THEN conjunct2, THEN conjunct1])
  from reached authenticated stored cleared removed show ?thesis
    by (intro conjI)
qed

text \<open>
  Claim C3 as stated fails in each of its parts. After a login whose response has a user and
  no token, the token in memory is null and the user is not. After a login whose token is the
  empty string, the session is unauthenticated and the token is not null. After a login whose
  token is the number that \<^verbatim>\<open>1e400\<close> parses to, the stored identity has a null token and a user.
\<close>

theorem login_breaks_identity_invariant:
  "reachable (snd (login True (Inr (JObj [(''user'', JObj [(''email'', JStr ''a@b.c'')])]))
       \<lparr>authState = signed_out, isAuthenticating = False, localStorage = None\<rparr>))
   \<and> token (snd (login True (Inr (JObj [(''user'', JObj [(''email'', JStr ''a@b.c'')])]))
       \<lparr>authState = signed_out, isAuthenticating = False, localStorage = None\<rparr>)) = JNull
   \<and> user (snd (login True (Inr (JObj [(''user'', JObj [(''email'', JStr ''a@b.c'')])]))
       \<lparr>authState = signed_out, isAuthenticating = False, localStorage = None\<rparr>))
       = JObj [(''email'', JStr ''a@b.c'')]
   \<and> \<not> identity_invariant (snd (login True
       (Inr (JObj [(''user'', JObj [(''email'', JStr ''a@b.c'')])]))
       \<lparr>authState = signed_out, isAuthenticating = False, localStorage = None\<rparr>))
   \<and> reachable (snd (login True (Inr (JObj [(''token'', JStr [])]))
       \<lparr>authState = signed_out, isAuthenticating = False, localStorage = None\<rparr>))
   \<and> token (snd (login True (Inr (JObj [(''token'', JStr [])]))
       \<lparr>authState = signed_out, isAuthenticating = False, localStorage = None\<rparr>)) = JStr []
   \<and> \<not> isAuthenticated (snd (login True (Inr (JObj [(''token'', JStr [])]))
       \<lparr>authState = signed_out, isAuthenticating = False, localStorage = None\<rparr>))
   \<and> \<not> identity_invariant (snd (login True (Inr (JObj [(''token'', JStr [])]))
       \<lparr>authState = signed_out, isAuthenticating = False, localStorage = None\<rparr>))
   \<and> reachable (snd (login True
       (Inr (JObj [(''user'', JObj [(''email'', JStr ''a@b.c'')]), (''token'', JNum ''Infinity'')]))
       \<lparr>authState = signed_out, isAuthenticating = False, localStorage = None\<rparr>))
   \<and> localStorage (snd (login True
       (Inr (JObj [(''user'', JObj [(''email'', JStr ''a@b.c'')]), (''token'', JNum ''Infinity'')]))
       \<lparr>authState = signed_out, isAuthenticating = False, localStorage = None\<rparr>))
       = Some (JsonText (JObj [(''user'', JObj [(''email'', JStr ''a@b.c'')]), (''token'', JNull)]))
   \<and> \<not> identity_invariant (snd (login True
       (Inr (JObj [(''user'', JObj [(''email'', JStr ''a@b.c'')]), (''token'', JNum ''Infinity'')]))
       \<lparr>authState = signed_out, isAuthenticating = False, localStorage = None\<rparr>))"
proof -
  let ?start = "\<lparr>authState = signed_out, isAuthenticating = False, localStorage = None\<rparr>"
  have "mount True None = Some ?start"
    by (simp add: mount_def getStoredAuth_def signed_out_def)
  then have start: "reachable ?start"
    by (rule reachable.init)
  have r1: "reachable (snd (login True
      (Inr (JObj [(''user'', JObj [(''email'', JStr ''a@b.c'')])])) ?start))"
    using start by (rule reachable.login)
  have r2: "reachable (snd (login True (Inr (JObj [(''token'', JStr [])])) ?start))"
    using start by (rule reachable.login)
  have r3: "reachable (snd (login True
      (Inr (JObj [(''user'', JObj [(''email'', JStr ''a@b.c'')]), (''token'', JNum ''Infinity'')]))
      ?start))"
    using start by (rule reachable.login)
  from r1 r2 r3 show ?thesis
    by (simp add: identity_invariant_def isAuthenticated_def login_def authenticate_def
        persistState_def coalesce_def token_def user_def signed_out_def Let_def)
qed

end
